theory Spec2Isabelle
  imports Main
begin

section \<open>Data model\<close>

text \<open>
  The two Sequelize models of \<^verbatim>\<open>db/models/user.js\<close> and \<^verbatim>\<open>db/models/course.js\<close>.
  A row is a record of its columns; the audit timestamps are left out, as no route
  ever sends them. The course's \<^verbatim>\<open>userId\<close> is the foreign key declared by
  \<^verbatim>\<open>Course.belongsTo(models.User, ...)\<close> with \<^verbatim>\<open>allowNull: false\<close>.
\<close>

record user =
  user_id :: int
  firstName :: string
  lastName :: string
  emailAddress :: string
  password :: string

record course =
  course_id :: int
  title :: string
  description :: string
  estimatedTime :: "string option"
  materialsNeeded :: "string option"
  userId :: int

text \<open>
  The database: both tables in insertion order, and the two \<^verbatim>\<open>autoIncrement\<close>
  counters (the last identifier handed out).
\<close>

record store =
  users :: "user list"
  courses :: "course list"
  user_seq :: int
  course_seq :: int

section \<open>JavaScript values\<close>

text \<open>
  What \<^verbatim>\<open>express.json()\<close> and the query parser put into a request: any JSON value.
  Numbers are taken to be integers. A field that is not there (\<^verbatim>\<open>undefined\<close>) is
  \<open>None\<close> of \<open>json option\<close>.
\<close>

datatype json =
    JNull | JBool bool | JNum int | JStr string | JArr "json list" | JObj "(string \<times> json) list"

text \<open>Decimal rendering of an integer, as \<^verbatim>\<open>"/courses/" + course.id\<close> produces it.\<close>

fun dec :: "nat \<Rightarrow> string" where
  "dec n = (if n < 10 then [''0123456789'' ! n] else dec (n div 10) @ [''0123456789'' ! (n mod 10)])"

declare dec.simps [simp del]

definition string_of_int :: "int \<Rightarrow> string" where
  "string_of_int i = (if i < 0 then ''-'' @ dec (nat (- i)) else dec (nat i))"

text \<open>\<^verbatim>\<open>!!value\<close>: arrays and objects are truthy, also when empty.\<close>

fun truthy :: "json option \<Rightarrow> bool" where
  "truthy None = False"
| "truthy (Some JNull) = False"
| "truthy (Some (JBool b)) = b"
| "truthy (Some (JNum n)) = (n \<noteq> 0)"
| "truthy (Some (JStr s)) = (s \<noteq> [])"
| "truthy (Some (JArr xs)) = True"
| "truthy (Some (JObj kvs)) = True"

fun js_typeof :: "json option \<Rightarrow> string" where
  "js_typeof None = ''undefined''"
| "js_typeof (Some (JBool b)) = ''boolean''"
| "js_typeof (Some (JNum n)) = ''number''"
| "js_typeof (Some (JStr s)) = ''string''"
| "js_typeof (Some v) = ''object''"

fun join_commas :: "string list \<Rightarrow> string" where
  "join_commas [] = []"
| "join_commas [x] = x"
| "join_commas (x # xs) = x @ '','' @ join_commas xs"

text \<open>
  \<^verbatim>\<open>String(value)\<close>: an array is its items joined by commas, with \<^verbatim>\<open>null\<close> items
  rendered empty; an object is \<^verbatim>\<open>[object Object]\<close>.
\<close>

primrec js_String :: "json \<Rightarrow> string" where
  "js_String JNull = ''null''"
| "js_String (JBool b) = (if b then ''true'' else ''false'')"
| "js_String (JNum n) = string_of_int n"
| "js_String (JStr s) = s"
| "js_String (JArr xs) =
     join_commas (map (\<lambda>item. if fst item = JNull then [] else snd item) (zip xs (map js_String xs)))"
| "js_String (JObj kvs) = ''[object Object]''"

definition nullish :: "json option \<Rightarrow> bool" where
  "nullish v \<longleftrightarrow> v = None \<or> v = Some JNull"

fun compound :: "json option \<Rightarrow> bool" where
  "compound (Some (JArr xs)) = True"
| "compound (Some (JObj kvs)) = True"
| "compound v = False"

section \<open>Requests, responses, errors\<close>

text \<open>A thrown JavaScript error: its \<^verbatim>\<open>status\<close> property, when it has one, and its message.\<close>

record error =
  err_status :: "nat option"
  err_message :: string

definition thrown :: "string \<Rightarrow> error" where
  "thrown m = \<lparr>err_status = None, err_message = m\<rparr>"

text \<open>
  What the routes take from outside this repository:
  \<^item> \<^verbatim>\<open>isEmail\<close> of validator.js, behind express-validator's \<^verbatim>\<open>.isEmail()\<close> and
    Sequelize's \<^verbatim>\<open>validate: { isEmail: true }\<close>;
  \<^item> \<^verbatim>\<open>hashSync\<close> and \<^verbatim>\<open>compareSync\<close> of bcryptjs;
  \<^item> whether the installed express-validator runs a standard validator on every item of an
    array value (\<^verbatim>\<open>validates_items\<close>) or on the array as one value;
  \<^item> from the storage engine configured in \<^verbatim>\<open>db/index.js\<close>: whether it enforces the foreign
    key, and what it makes of a number or boolean written to a text column and of a value
    that is no number written to the integer column \<^verbatim>\<open>userId\<close>: the value stored, or the
    message of the error raised.
  They are parameters of the model.
\<close>

record env =
  isEmail :: "string \<Rightarrow> bool"
  hashSync :: "string \<Rightarrow> string"
  compareSync :: "string \<Rightarrow> string \<Rightarrow> bool"
  validates_items :: bool
  foreignKeys :: bool
  text_column :: "json \<Rightarrow> string + string"
  int_column :: "json \<Rightarrow> string + int"

text \<open>
  A request that reached the routes: \<^verbatim>\<open>credentials\<close> is what \<^verbatim>\<open>auth(req)\<close> of
  basic-auth returns (name and pass, or nothing when the Authorization header is absent or
  malformed), \<^verbatim>\<open>params_id\<close> is \<^verbatim>\<open>req.params.id\<close>, \<^verbatim>\<open>body\<close> is \<^verbatim>\<open>req.body\<close> by
  field name, \<^verbatim>\<open>headers\<close> and \<^verbatim>\<open>query\<close> are \<^verbatim>\<open>req.headers\<close> and \<^verbatim>\<open>req.query\<close>.
  No cookie parser is installed, and the only route parameter is \<^verbatim>\<open>id\<close>.
\<close>

record request =
  credentials :: "(string \<times> string) option"
  params_id :: int
  body :: "string \<rightharpoonup> json"
  headers :: "string \<rightharpoonup> string"
  query :: "string \<rightharpoonup> json"

text \<open>
  What arrives at the application: \<^verbatim>\<open>express.json()\<close> (app.js) comes before the routes
  and either parses the body or passes an error with a status of its own (400 for
  malformed JSON) to \<^verbatim>\<open>next(err)\<close>, as the router does for a path it cannot decode.
\<close>

datatype incoming = Refused error | Parsed request

record response =
  status :: nat
  location :: "string option"
  res_body :: "json option"

datatype endpoint =
    GET_root | GET_users | POST_users | GET_courses | GET_course
  | POST_courses | PUT_course | DELETE_course | Unmatched

primrec has_field :: "string \<Rightarrow> json \<Rightarrow> bool" where
  "has_field k JNull = False"
| "has_field k (JBool b) = False"
| "has_field k (JNum n) = False"
| "has_field k (JStr s) = False"
| "has_field k (JArr xs) = list_ex id (map (has_field k) xs)"
| "has_field k (JObj kvs) = list_ex (\<lambda>(k', b). k' = k \<or> b) (map (map_prod id (has_field k)) kvs)"

definition body_has_field :: "string \<Rightarrow> response \<Rightarrow> bool" where
  "body_has_field k r = (case res_body r of None \<Rightarrow> False | Some j \<Rightarrow> has_field k j)"

text \<open>\<^verbatim>\<open>res.json(v)\<close> with the default status, \<^verbatim>\<open>res.status(n).json(v)\<close>, \<^verbatim>\<open>res.status(n).end()\<close>.\<close>

definition res_json :: "nat \<Rightarrow> json \<Rightarrow> response" where
  "res_json n v = \<lparr>status = n, location = None, res_body = Some v\<rparr>"

definition res_end :: "nat \<Rightarrow> string option \<Rightarrow> response" where
  "res_end n loc = \<lparr>status = n, location = loc, res_body = None\<rparr>"

definition access_denied :: response where
  "access_denied = res_json 401 (JObj [(''message'', JStr ''Access Denied'')])"

section \<open>The global error handler and asyncHandler (app.js, routes)\<close>

text \<open>
  \<^verbatim>\<open>res.status(err.status || 500).json({ error: { message: err.message } })\<close>:
  a status that is absent or 0 is falsy.
\<close>

definition global_error_handler :: "error \<Rightarrow> response" where
  "global_error_handler err =
     res_json (case err_status err of None \<Rightarrow> 500 | Some n \<Rightarrow> if n = 0 then 500 else n)
       (JObj [(''error'', JObj [(''message'', JStr (err_message err))])])"

text \<open>
  \<^verbatim>\<open>asyncHandler(cb)\<close> passes what \<^verbatim>\<open>cb\<close> throws to \<^verbatim>\<open>next(err)\<close>, which reaches the
  global error handler. A handler's outcome is the error thrown or the response sent,
  with the store as the handler left it.
\<close>

definition asyncHandler :: "(error + response) \<times> store \<Rightarrow> response \<times> store" where
  "asyncHandler out =
     (case fst out of Inl err \<Rightarrow> (global_error_handler err, snd out) | Inr r \<Rightarrow> (r, snd out))"

section \<open>express-validator chains\<close>

text \<open>
  \<^verbatim>\<open>check(field)\<close> looks the field up in the body, the cookies, the headers, the route
  parameters and the query, in this order, and validates every location that has a value;
  when none has, it validates the (undefined) body field. Here only the body, the headers
  and the query can hold a value; a header is looked up under the field name in lower case.
\<close>

definition lower :: "char \<Rightarrow> char" where
  "lower c = (if 65 \<le> (of_char c :: nat) \<and> (of_char c :: nat) \<le> 90
              then char_of ((of_char c :: nat) + 32) else c)"

definition instances :: "request \<Rightarrow> string \<Rightarrow> json option list" where
  "instances req f =
     (let found = filter (\<lambda>v. v \<noteq> None)
                    [body req f, map_option JStr (headers req (map lower f)), query req f]
      in if found = [] then [None] else found)"

text \<open>
  \<^verbatim>\<open>.exists({ checkNull: true, checkFalsy: true })\<close> accepts a truthy value.
  \<^verbatim>\<open>.isEmail()\<close> is a standard validator: it is run on the value turned into a string by
  express-validator's \<^verbatim>\<open>toString\<close> (\<^verbatim>\<open>undefined\<close> and \<^verbatim>\<open>null\<close> give the empty string, a
  non-empty array stands for its first item).
\<close>

datatype validator = Exists | IsEmail

type_synonym chain = "string \<times> (validator \<times> string) list"

fun toString :: "json option \<Rightarrow> string" where
  "toString None = []"
| "toString (Some JNull) = []"
| "toString (Some (JArr (x # xs))) = (if x = JNull then [] else js_String x)"
| "toString (Some v) = js_String v"

fun run_validator :: "env \<Rightarrow> validator \<Rightarrow> json option \<Rightarrow> bool" where
  "run_validator E Exists v = truthy v"
| "run_validator E IsEmail v = isEmail E (toString v)"

text \<open>
  The values one validator is run on, for one value of the field: the value itself, or, for a
  standard validator where the library checks an array item by item, each of its items.
\<close>

fun validated_values :: "env \<Rightarrow> validator \<Rightarrow> json option \<Rightarrow> json option list" where
  "validated_values E IsEmail (Some (JArr xs)) =
     (if validates_items E then map Some xs else [Some (JArr xs)])"
| "validated_values E validator v = [v]"

text \<open>
  A chain has no \<^verbatim>\<open>.bail()\<close>: every validator of it runs, in turn, on every instance of the
  field; each failure adds the validator's \<^verbatim>\<open>withMessage\<close> text, and \<^verbatim>\<open>errors.array()\<close>
  lists them chain by chain.
\<close>

definition run_rule :: "env \<Rightarrow> request \<Rightarrow> string \<Rightarrow> validator \<times> string \<Rightarrow> string list" where
  "run_rule E req f rule =
     concat (map (\<lambda>v. map (\<lambda>x. snd rule)
                         (filter (\<lambda>x. \<not> run_validator E (fst rule) x)
                            (validated_values E (fst rule) v)))
               (instances req f))"

definition run_chain :: "env \<Rightarrow> request \<Rightarrow> chain \<Rightarrow> string list" where
  "run_chain E req c = concat (map (run_rule E req (fst c)) (snd c))"

definition validationResult :: "env \<Rightarrow> request \<Rightarrow> chain list \<Rightarrow> string list" where
  "validationResult E req cs = concat (map (run_chain E req) cs)"

definition post_users_checks :: "chain list" where
  \<open>post_users_checks =
     [(''firstName'', [(Exists, ''Please provide  "firstName"'')]),
      (''lastName'', [(Exists, ''Please provide "lastName"'')]),
      (''emailAddress'', [(Exists, ''Please provide "emailAddress"''),
                          (IsEmail, ''Please provide valid "email address" '')]),
      (''password'', [(Exists, ''Please provide "password"'')])]\<close>

definition post_courses_checks :: "chain list" where
  \<open>post_courses_checks =
     [(''title'', [(Exists, ''Please provide "title"'')]),
      (''description'', [(Exists, ''Please provide "description"'')])]\<close>

definition put_course_checks :: "chain list" where
  \<open>put_course_checks =
     [(''title'', [(Exists, ''Please provide "title"'')]),
      (''description'', [(Exists, ''Pleas provide "description"'')])]\<close>

definition validation_failed :: "string list \<Rightarrow> response" where
  "validation_failed errorMessages = res_json 400 (JObj [(''errors'', JArr (map JStr errorMessages))])"

section \<open>The Sequelize models\<close>

text \<open>
  \<^verbatim>\<open>Model.create\<close> first validates: for every attribute the schema checks
  (\<^verbatim>\<open>allowNull: false\<close>; a text attribute cannot be an array or an object), then the
  declared validators (\<^verbatim>\<open>isEmail\<close>, on \<^verbatim>\<open>String(value)\<close>, skipped for a null value); all
  violations go into one error. Then it inserts: a string is stored as it is, another
  scalar as the engine renders it; the insert fails on the unique index of
  \<^verbatim>\<open>emailAddress\<close> with the message declared in user.js, and on a dangling owner reference
  where the engine enforces the foreign key. None of these errors has a \<^verbatim>\<open>status\<close>
  property.
\<close>

definition schema_violations :: "string \<Rightarrow> string \<Rightarrow> bool \<Rightarrow> json option \<Rightarrow> string list" where
  "schema_violations model field allowNull v =
     (if \<not> allowNull \<and> nullish v
      then [''notNull Violation: '' @ model @ ''.'' @ field @ '' cannot be null''] else [])
   @ (if compound v
      then [''string violation: '' @ field @ '' cannot be an array or an object''] else [])"

definition notNull :: "string \<Rightarrow> string \<Rightarrow> json option \<Rightarrow> string list" where
  "notNull model field v =
     (if nullish v then [''notNull Violation: '' @ model @ ''.'' @ field @ '' cannot be null'']
      else [])"

fun join_messages :: "string list \<Rightarrow> string" where
  "join_messages [] = []"
| "join_messages [m] = m"
| "join_messages (m # ms) = m @ '','' @ [CHR 0x0A] @ join_messages ms"

text \<open>What a text column and the integer column hold for a value, or the engine's error.\<close>

fun column_text :: "env \<Rightarrow> json option \<Rightarrow> string + string option" where
  "column_text E None = Inr None"
| "column_text E (Some JNull) = Inr None"
| "column_text E (Some (JStr s)) = Inr (Some s)"
| "column_text E (Some v) = map_sum id Some (text_column E v)"

fun column_int :: "env \<Rightarrow> json option \<Rightarrow> string + int option" where
  "column_int E None = Inr None"
| "column_int E (Some JNull) = Inr None"
| "column_int E (Some (JNum n)) = Inr (Some n)"
| "column_int E (Some v) = map_sum id Some (int_column E v)"

fun collect :: "('e + 'a) list \<Rightarrow> 'e + 'a list" where
  "collect [] = Inr []"
| "collect (x # xs) =
     (case x of Inl e \<Rightarrow> Inl e
      | Inr a \<Rightarrow> (case collect xs of Inl e \<Rightarrow> Inl e | Inr as \<Rightarrow> Inr (a # as)))"

text \<open>
  In both \<^verbatim>\<open>create\<close> functions the last case is not reached: a required column without a
  value is a violation before.
\<close>

definition User_create ::
  "env \<Rightarrow> store \<Rightarrow> json option \<Rightarrow> json option \<Rightarrow> json option \<Rightarrow> json option
     \<Rightarrow> (error + user) \<times> store" where
  "User_create E s fn ln em pw =
     (let violations =
            schema_violations ''User'' ''firstName'' False fn
          @ schema_violations ''User'' ''lastName'' False ln
          @ schema_violations ''User'' ''emailAddress'' False em
          @ schema_violations ''User'' ''password'' False pw
          @ (case em of None \<Rightarrow> []
             | Some v \<Rightarrow> if v = JNull \<or> isEmail E (js_String v) then []
                         else [''Validation error: Validation isEmail on emailAddress failed''])
      in if violations \<noteq> [] then (Inl (thrown (join_messages violations)), s)
         else (case collect (map (column_text E) [fn, ln, em, pw]) of
                 Inl m \<Rightarrow> (Inl (thrown m), s)
               | Inr [Some f, Some l, Some e, Some p] \<Rightarrow>
                   if list_ex (\<lambda>u. emailAddress u = e) (users s)
                   then (Inl (thrown ''Email address already in use!''), s)
                   else (let u = \<lparr>user_id = user_seq s + 1, firstName = f, lastName = l,
                                   emailAddress = e, password = p\<rparr>
                         in (Inr u, s\<lparr>users := users s @ [u], user_seq := user_seq s + 1\<rparr>))
               | Inr _ \<Rightarrow> (Inl (thrown []), s)))"

definition Course_create ::
  "env \<Rightarrow> store \<Rightarrow> json option \<Rightarrow> json option \<Rightarrow> json option \<Rightarrow> json option
     \<Rightarrow> json option \<Rightarrow> (error + course) \<times> store" where
  "Course_create E s t d et mn uid =
     (let violations =
            schema_violations ''Course'' ''title'' False t
          @ schema_violations ''Course'' ''description'' False d
          @ schema_violations ''Course'' ''estimatedTime'' True et
          @ schema_violations ''Course'' ''materialsNeeded'' True mn
          @ notNull ''Course'' ''userId'' uid
      in if violations \<noteq> [] then (Inl (thrown (join_messages violations)), s)
         else (case collect (map (column_text E) [t, d, et, mn]) of
                 Inl m \<Rightarrow> (Inl (thrown m), s)
               | Inr [Some t', Some d', et', mn'] \<Rightarrow>
                   (case column_int E uid of
                      Inl m \<Rightarrow> (Inl (thrown m), s)
                    | Inr (Some uid') \<Rightarrow>
                        if foreignKeys E \<and> \<not> list_ex (\<lambda>u. user_id u = uid') (users s)
                        then (Inl (thrown ''SQLITE_CONSTRAINT: FOREIGN KEY constraint failed''), s)
                        else (let c = \<lparr>course_id = course_seq s + 1, title = t',
                                        description = d', estimatedTime = et',
                                        materialsNeeded = mn', userId = uid'\<rparr>
                              in (Inr c, s\<lparr>courses := courses s @ [c],
                                           course_seq := course_seq s + 1\<rparr>))
                    | Inr None \<Rightarrow> (Inl (thrown []), s))
               | Inr _ \<Rightarrow> (Inl (thrown []), s)))"

definition User_findAll :: "store \<Rightarrow> user list" where
  "User_findAll s = users s"

definition Course_findByPk :: "store \<Rightarrow> int \<Rightarrow> course option" where
  "Course_findByPk s i = find (\<lambda>c. course_id c = i) (courses s)"

text \<open>
  \<^verbatim>\<open>Course.update(values, { where: { id } })\<close>: a value that is \<^verbatim>\<open>undefined\<close> is left
  out, so the column keeps what it holds; the values given are validated as in
  \<^verbatim>\<open>create\<close>, and a \<^verbatim>\<open>null\<close> empties a column that allows it.
\<close>

definition given_violations :: "string \<Rightarrow> bool \<Rightarrow> json option \<Rightarrow> string list" where
  "given_violations field allowNull v =
     (if v = None then [] else schema_violations ''Course'' field allowNull v)"

definition change :: "env \<Rightarrow> json option \<Rightarrow> string + string option option" where
  "change E v = (if v = None then Inr None else map_sum id Some (column_text E v))"

definition update_row ::
  "string option option \<Rightarrow> string option option \<Rightarrow> string option option
     \<Rightarrow> string option option \<Rightarrow> course \<Rightarrow> course" where
  "update_row t d et mn c =
     c\<lparr>title := (case t of Some (Some v) \<Rightarrow> v | _ \<Rightarrow> title c),
       description := (case d of Some (Some v) \<Rightarrow> v | _ \<Rightarrow> description c),
       estimatedTime := (case et of None \<Rightarrow> estimatedTime c | Some v \<Rightarrow> v),
       materialsNeeded := (case mn of None \<Rightarrow> materialsNeeded c | Some v \<Rightarrow> v)\<rparr>"

definition Course_update ::
  "env \<Rightarrow> store \<Rightarrow> json option \<Rightarrow> json option \<Rightarrow> json option \<Rightarrow> json option \<Rightarrow> int
     \<Rightarrow> error + store" where
  "Course_update E s t d et mn i =
     (let violations =
            given_violations ''title'' False t @ given_violations ''description'' False d
          @ given_violations ''estimatedTime'' True et
          @ given_violations ''materialsNeeded'' True mn
      in if violations \<noteq> [] then Inl (thrown (join_messages violations))
         else (case collect (map (change E) [t, d, et, mn]) of
                 Inl m \<Rightarrow> Inl (thrown m)
               | Inr [t', d', et', mn'] \<Rightarrow>
                   Inr (s\<lparr>courses := map (\<lambda>c. if course_id c = i
                                               then update_row t' d' et' mn' c else c)
                                          (courses s)\<rparr>)
               | Inr _ \<Rightarrow> Inl (thrown [])))"

definition Course_destroy :: "store \<Rightarrow> int \<Rightarrow> store" where
  "Course_destroy s i = s\<lparr>courses := filter (\<lambda>c. course_id c \<noteq> i) (courses s)\<rparr>"

text \<open>
  What \<^verbatim>\<open>findAll\<close> and \<^verbatim>\<open>findByPk\<close> serialise with
  \<^verbatim>\<open>attributes: { exclude: ["createdAt", "updatedAt"] }\<close> and the owner included with
  \<^verbatim>\<open>exclude: ["createdAt", "updatedAt", "password"]\<close>.
\<close>

definition owner_json :: "user \<Rightarrow> json" where
  "owner_json u =
     JObj [(''id'', JNum (user_id u)), (''firstName'', JStr (firstName u)),
           (''lastName'', JStr (lastName u)), (''emailAddress'', JStr (emailAddress u))]"

definition nullable :: "string option \<Rightarrow> json" where
  "nullable v = (case v of None \<Rightarrow> JNull | Some x \<Rightarrow> JStr x)"

definition course_json :: "store \<Rightarrow> course \<Rightarrow> json" where
  "course_json s c =
     JObj [(''id'', JNum (course_id c)), (''title'', JStr (title c)),
           (''description'', JStr (description c)),
           (''estimatedTime'', nullable (estimatedTime c)),
           (''materialsNeeded'', nullable (materialsNeeded c)),
           (''userId'', JNum (userId c)),
           (''owner'', (case find (\<lambda>u. user_id u = userId c) (users s) of
                          None \<Rightarrow> JNull | Some u \<Rightarrow> owner_json u))]"

section \<open>The authentication middleware\<close>

text \<open>
  \<^verbatim>\<open>authenticateUser\<close> up to its last \<^verbatim>\<open>if\<close>: either \<^verbatim>\<open>message\<close> is set (left, the
  text given to \<^verbatim>\<open>console.warn\<close>) or \<^verbatim>\<open>req.currentUser\<close> is (right). Every message
  the code builds is a non-empty string, hence truthy.
\<close>

definition auth_outcome :: "env \<Rightarrow> store \<Rightarrow> request \<Rightarrow> string + user" where
  "auth_outcome E s req =
     (case credentials req of
        Some cred \<Rightarrow>
          (case find (\<lambda>u. emailAddress u = fst cred) (User_findAll s) of
             Some u \<Rightarrow>
               if compareSync E (snd cred) (password u) then Inr u
               else Inl (''Authentication failure: '' @ emailAddress u)
           | None \<Rightarrow> Inl (''User not found : '' @ fst cred))
      | None \<Rightarrow> Inl ''Auth header not found'')"

text \<open>The middleware: the 401 response it sends, or the user it hands to \<^verbatim>\<open>next()\<close>.\<close>

definition authenticateUser :: "env \<Rightarrow> store \<Rightarrow> request \<Rightarrow> response + user" where
  "authenticateUser E s req =
     (case auth_outcome E s req of Inl message \<Rightarrow> Inl access_denied | Inr u \<Rightarrow> Inr u)"

section \<open>Route handlers\<close>

definition get_users :: "user \<Rightarrow> store \<Rightarrow> (error + response) \<times> store" where
  "get_users u s =
     (Inr (res_json 200
        (JObj [(''id'', JNum (user_id u)), (''firstName'', JStr (firstName u)),
               (''lastName'', JStr (lastName u)), (''emailAddress'', JStr (emailAddress u))])), s)"

text \<open>
  \<^verbatim>\<open>bcryptjs.hashSync(req.body.password)\<close> throws on an argument that is not a string,
  naming the types of the argument and of the salt it generated.
\<close>

definition post_users :: "env \<Rightarrow> store \<Rightarrow> request \<Rightarrow> (error + response) \<times> store" where
  "post_users E s req =
     (let errors = validationResult E req post_users_checks
      in if errors \<noteq> [] then (Inr (validation_failed errors), s)
         else (case body req ''password'' of
                 Some (JStr p) \<Rightarrow>
                   (case User_create E s (body req ''firstName'') (body req ''lastName'')
                           (body req ''emailAddress'') (Some (JStr (hashSync E p))) of
                      (Inl err, s') \<Rightarrow> (Inl err, s')
                    | (Inr u, s') \<Rightarrow> (Inr (res_end 201 (Some ''/'')), s'))
               | v \<Rightarrow> (Inl (thrown (''Illegal arguments: '' @ js_typeof v @ '', string'')), s)))"

definition get_courses :: "store \<Rightarrow> (error + response) \<times> store" where
  "get_courses s = (Inr (res_json 200 (JArr (map (course_json s) (courses s)))), s)"

definition get_course :: "store \<Rightarrow> request \<Rightarrow> (error + response) \<times> store" where
  "get_course s req =
     (case Course_findByPk s (params_id req) of
        Some c \<Rightarrow> (Inr (res_json 200 (JObj [(''course'', course_json s c)])), s)
      | None \<Rightarrow> (Inr (res_json 404 (JObj [(''message'', JStr ''Course not exist'')])), s))"

definition post_courses :: "env \<Rightarrow> store \<Rightarrow> request \<Rightarrow> (error + response) \<times> store" where
  "post_courses E s req =
     (let errors = validationResult E req post_courses_checks
      in if errors \<noteq> [] then (Inr (validation_failed errors), s)
         else (case Course_create E s (body req ''title'') (body req ''description'')
                      (body req ''estimatedTime'') (body req ''materialsNeeded'')
                      (body req ''userId'') of
                 (Inl err, s') \<Rightarrow> (Inl err, s')
               | (Inr c, s') \<Rightarrow>
                   (Inr (res_end 201 (Some (''/courses/'' @ string_of_int (course_id c)))), s')))"

text \<open>
  Reading \<^verbatim>\<open>course.userId\<close> when \<^verbatim>\<open>findByPk\<close> gave \<^verbatim>\<open>null\<close> throws a TypeError (the
  wording is that of current Node.js; older engines word it differently).
\<close>

definition null_userId :: error where
  \<open>null_userId = thrown ''Cannot read properties of null (reading 'userId')''\<close>

definition put_course :: "env \<Rightarrow> user \<Rightarrow> store \<Rightarrow> request \<Rightarrow> (error + response) \<times> store" where
  "put_course E u s req =
     (let errors = validationResult E req put_course_checks
      in if errors \<noteq> [] then (Inr (validation_failed errors), s)
         else (case Course_findByPk s (params_id req) of
                 None \<Rightarrow> (Inl null_userId, s)
               | Some c \<Rightarrow>
                   if userId c = user_id u
                   then (case Course_update E s (body req ''title'') (body req ''description'')
                                (body req ''estimatedTime'') (body req ''materialsNeeded'')
                                (params_id req) of
                           Inl err \<Rightarrow> (Inl err, s)
                         | Inr s' \<Rightarrow> (Inr (res_end 204 None), s'))
                   else (Inr (res_json 403 (JStr ''User has no course'')), s)))"

definition delete_course :: "user \<Rightarrow> store \<Rightarrow> request \<Rightarrow> (error + response) \<times> store" where
  "delete_course u s req =
     (case Course_findByPk s (params_id req) of
        None \<Rightarrow> (Inl null_userId, s)
      | Some c \<Rightarrow>
          if userId c = user_id u
          then (Inr (res_end 204 None), Course_destroy s (params_id req))
          else (Inr (res_json 403 (JStr ''User has no course'')), s))"

section \<open>The application\<close>

text \<open>
  A route that lists \<^verbatim>\<open>authenticateUser\<close> runs its handler only after \<^verbatim>\<open>next()\<close>; the
  \<^verbatim>\<open>check\<close> middlewares before it only record their errors on the request.
\<close>

definition authenticated ::
  "env \<Rightarrow> store \<Rightarrow> request \<Rightarrow> (user \<Rightarrow> (error + response) \<times> store) \<Rightarrow> response \<times> store" where
  "authenticated E s req handler =
     (case authenticateUser E s req of Inl r \<Rightarrow> (r, s) | Inr u \<Rightarrow> asyncHandler (handler u))"

definition route_not_found :: error where
  "route_not_found = \<lparr>err_status = Some 404, err_message = ''Route Not Found''\<rparr>"

text \<open>The routes, for a request whose body was parsed.\<close>

fun app :: "env \<Rightarrow> store \<Rightarrow> endpoint \<Rightarrow> request \<Rightarrow> response \<times> store" where
  "app E s GET_root req =
     (res_json 200 (JObj [(''message'', JStr ''Welcome to the REST API project Bitches!'')]), s)"
| "app E s GET_users req = authenticated E s req (\<lambda>u. get_users u s)"
| "app E s POST_users req = asyncHandler (post_users E s req)"
| "app E s GET_courses req = asyncHandler (get_courses s)"
| "app E s GET_course req = asyncHandler (get_course s req)"
| "app E s POST_courses req = authenticated E s req (\<lambda>u. post_courses E s req)"
| "app E s PUT_course req = authenticated E s req (\<lambda>u. put_course E u s req)"
| "app E s DELETE_course req = authenticated E s req (\<lambda>u. delete_course u s req)"
| "app E s Unmatched req = (global_error_handler route_not_found, s)"

text \<open>
  The whole middleware stack of app.js: an error of \<^verbatim>\<open>express.json()\<close> goes to the global
  error handler, whatever the route.
\<close>

definition server :: "env \<Rightarrow> store \<Rightarrow> endpoint \<Rightarrow> incoming \<Rightarrow> response \<times> store" where
  "server E s ep inc =
     (case inc of Refused err \<Rightarrow> (global_error_handler err, s) | Parsed req \<Rightarrow> app E s ep req)"

section \<open>Concrete stores and requests\<close>

text \<open>
  Stand-ins for the library functions, used only to run the examples below; the general
  theorems hold for every environment. The \<^verbatim>\<open>isEmail\<close> asks for an at-sign (so the empty
  string is no e-mail address, as for validator.js), the \<^verbatim>\<open>hashSync\<close> prefixes a marker.
\<close>

definition sample_env :: env where
  "sample_env = \<lparr>isEmail = (\<lambda>a. CHR ''@'' \<in> set a), hashSync = (\<lambda>p. ''$2a$10$'' @ p),
                  compareSync = (\<lambda>p h. h = ''$2a$10$'' @ p), validates_items = True,
                  foreignKeys = True, text_column = (\<lambda>v. Inr (js_String v)),
                  int_column = (\<lambda>v. Inl ''SQLITE_MISMATCH: datatype mismatch'')\<rparr>"

text \<open>
  The same with the one property of bcrypt that matters below: only the first 72 bytes of a
  password enter the hash.
\<close>

definition bcrypt72_env :: env where
  "bcrypt72_env = sample_env\<lparr>hashSync := (\<lambda>p. ''$2a$10$'' @ take 72 p),
                              compareSync := (\<lambda>p h. h = ''$2a$10$'' @ take 72 p)\<rparr>"

definition ann :: user where
  "ann = \<lparr>user_id = 1, firstName = ''Ann'', lastName = ''Lee'', emailAddress = ''ann@x.com'',
           password = ''$2a$10$secret1''\<rparr>"

definition bob :: user where
  "bob = \<lparr>user_id = 2, firstName = ''Bob'', lastName = ''Ray'', emailAddress = ''bob@x.com'',
           password = ''$2a$10$hunter2''\<rparr>"

definition intro :: course where
  "intro = \<lparr>course_id = 1, title = ''Intro'', description = ''desc'', estimatedTime = None,
             materialsNeeded = None, userId = 1\<rparr>"

definition sample_store :: store where
  "sample_store = \<lparr>users = [ann, bob], courses = [intro], user_seq = 2, course_seq = 1\<rparr>"

definition empty_store :: store where
  "empty_store = \<lparr>users = [], courses = [], user_seq = 0, course_seq = 0\<rparr>"

text \<open>Ann's e-mail address with a wrong password, on course 1, with an empty body.\<close>

definition wrong_password :: request where
  "wrong_password = \<lparr>credentials = Some (''ann@x.com'', ''guess''), params_id = 1,
      body = Map.empty, headers = Map.empty, query = Map.empty\<rparr>"

text \<open>Bob, with his own password, sending a valid update of course 1, which is Ann's.\<close>

definition bob_on_anns_course :: request where
  "bob_on_anns_course = \<lparr>credentials = Some (''bob@x.com'', ''hunter2''), params_id = 1,
      body = [''title'' \<mapsto> JStr ''Mine'', ''description'' \<mapsto> JStr ''now''],
      headers = Map.empty, query = Map.empty\<rparr>"

text \<open>Ann, with her own password, on course 7, which does not exist.\<close>

definition ann_on_missing_course :: request where
  "ann_on_missing_course = \<lparr>credentials = Some (''ann@x.com'', ''secret1''), params_id = 7,
      body = [''title'' \<mapsto> JStr ''Intro'', ''description'' \<mapsto> JStr ''desc''],
      headers = Map.empty, query = Map.empty\<rparr>"

text \<open>A complete new user whose e-mail address is Ann's.\<close>

definition duplicate_ann :: request where
  "duplicate_ann = \<lparr>credentials = None, params_id = 0,
      body = [''firstName'' \<mapsto> JStr ''Anna'', ''lastName'' \<mapsto> JStr ''Li'',
              ''emailAddress'' \<mapsto> JStr ''ann@x.com'', ''password'' \<mapsto> JStr ''pw''],
      headers = Map.empty, query = Map.empty\<rparr>"

text \<open>A new user with every field but the e-mail address.\<close>

definition missing_email :: request where
  "missing_email = \<lparr>credentials = None, params_id = 0,
      body = [''firstName'' \<mapsto> JStr ''Cy'', ''lastName'' \<mapsto> JStr ''Po'',
              ''password'' \<mapsto> JStr ''pw''],
      headers = Map.empty, query = Map.empty\<rparr>"

text \<open>Ann creating a course: without a \<^verbatim>\<open>userId\<close>, and with Bob's.\<close>

definition no_owner_course :: request where
  "no_owner_course = \<lparr>credentials = Some (''ann@x.com'', ''secret1''), params_id = 0,
      body = [''title'' \<mapsto> JStr ''Intro'', ''description'' \<mapsto> JStr ''desc''],
      headers = Map.empty, query = Map.empty\<rparr>"

definition course_for_bob :: request where
  "course_for_bob = \<lparr>credentials = Some (''ann@x.com'', ''secret1''), params_id = 0,
      body = [''title'' \<mapsto> JStr ''Intro'', ''description'' \<mapsto> JStr ''desc'',
              ''userId'' \<mapsto> JNum 2],
      headers = Map.empty, query = Map.empty\<rparr>"

text \<open>No credentials and an empty body.\<close>

definition empty_request :: request where
  "empty_request = \<lparr>credentials = None, params_id = 0, body = Map.empty,
      headers = Map.empty, query = Map.empty\<rparr>"

text \<open>
  A new user, Dee, whose password has 73 characters, and a login with her address and a
  password that differs from hers in the last character only.
\<close>

definition long_password :: string where
  "long_password = replicate 72 (CHR ''a'') @ ''b''"

definition other_password :: string where
  "other_password = replicate 72 (CHR ''a'') @ ''c''"

definition new_dee :: request where
  "new_dee = \<lparr>credentials = None, params_id = 0,
      body = [''firstName'' \<mapsto> JStr ''Dee'', ''lastName'' \<mapsto> JStr ''Fox'',
              ''emailAddress'' \<mapsto> JStr ''dee@x.com'', ''password'' \<mapsto> JStr long_password],
      headers = Map.empty, query = Map.empty\<rparr>"

definition dee :: user where
  "dee = \<lparr>user_id = 1, firstName = ''Dee'', lastName = ''Fox'', emailAddress = ''dee@x.com'',
           password = ''$2a$10$'' @ replicate 72 (CHR ''a'')\<rparr>"

definition dee_other_password :: request where
  "dee_other_password = \<lparr>credentials = Some (''dee@x.com'', other_password), params_id = 0,
      body = Map.empty, headers = Map.empty, query = Map.empty\<rparr>"

text \<open>A new user, Eve, with a short password, and two logins with her address.\<close>

definition new_eve :: request where
  "new_eve = \<lparr>credentials = None, params_id = 0,
      body = [''firstName'' \<mapsto> JStr ''Eve'', ''lastName'' \<mapsto> JStr ''Kim'',
              ''emailAddress'' \<mapsto> JStr ''eve@x.com'', ''password'' \<mapsto> JStr ''secret3''],
      headers = Map.empty, query = Map.empty\<rparr>"

definition eve_login :: "string \<Rightarrow> request" where
  "eve_login q = \<lparr>credentials = Some (''eve@x.com'', q), params_id = 0,
      body = Map.empty, headers = Map.empty, query = Map.empty\<rparr>"


section \<open>Properties used to state the results\<close>


text \<open>The fields of the list are carried by the body alone, not by a header or the query.\<close>

definition body_only :: "request \<Rightarrow> string list \<Rightarrow> bool" where
  "body_only req fs \<longleftrightarrow>
     list_all (\<lambda>f. headers req (map lower f) = None \<and> query req f = None) fs"

text \<open>A value that is absent, \<^verbatim>\<open>null\<close> or a string, and the text a column holds for it.\<close>

fun plain :: "json option \<Rightarrow> bool" where
  "plain None = True"
| "plain (Some JNull) = True"
| "plain (Some (JStr x)) = True"
| "plain v = False"

fun plain_text :: "json option \<Rightarrow> string option" where
  "plain_text (Some (JStr x)) = Some x"
| "plain_text v = None"


section \<open>Authentication\<close>

lemma authenticated_rejected:
  "auth_outcome E s req = Inl m \<Longrightarrow> authenticated E s req h = (access_denied, s)"
  by (simp add: authenticated_def authenticateUser_def)

lemma authenticated_accepted:
  "auth_outcome E s req = Inr u \<Longrightarrow> authenticated E s req h = asyncHandler (h u)"
  by (simp add: authenticated_def authenticateUser_def)

lemma auth_outcome_reasons:
  "(\<exists>m. auth_outcome E s req = Inl m) \<longleftrightarrow>
     (credentials req = None
      \<or> (\<exists>name pass. credentials req = Some (name, pass)
            \<and> find (\<lambda>u. emailAddress u = name) (users s) = None)
      \<or> (\<exists>name pass u. credentials req = Some (name, pass)
            \<and> find (\<lambda>u. emailAddress u = name) (users s) = Some u
            \<and> \<not> compareSync E pass (password u)))"
  by (auto simp: auth_outcome_def User_findAll_def split: option.splits)

lemma sample_auth_bob: "auth_outcome sample_env sample_store bob_on_anns_course = Inr bob"
  by (simp add: auth_outcome_def User_findAll_def sample_store_def sample_env_def
      bob_on_anns_course_def ann_def bob_def)

lemma sample_auth_ann_missing:
  "auth_outcome sample_env sample_store ann_on_missing_course = Inr ann"
  by (simp add: auth_outcome_def User_findAll_def sample_store_def sample_env_def
      ann_on_missing_course_def ann_def)

lemma sample_auth_ann_no_owner: "auth_outcome sample_env sample_store no_owner_course = Inr ann"
  by (simp add: auth_outcome_def User_findAll_def sample_store_def sample_env_def
      no_owner_course_def ann_def)

lemma sample_auth_ann_for_bob: "auth_outcome sample_env sample_store course_for_bob = Inr ann"
  by (simp add: auth_outcome_def User_findAll_def sample_store_def sample_env_def
      course_for_bob_def ann_def)

text \<open>
  C1. On each authenticated route (GET /users, POST /courses, PUT /courses/:id,
  DELETE /courses/:id), when authentication is rejected, whether because the Authorization
  header is absent, because no user has the presented e-mail address, or because the
  password does not match the stored hash, the response is 401 with the body
  \<^verbatim>\<open>{"message": "Access Denied"}\<close>: the same response for every reason, with nothing of the
  reason in it, and the store is untouched.
\<close>

theorem rejected_authentication_is_401_access_denied:
  assumes "ep = GET_users \<or> ep = POST_courses \<or> ep = PUT_course \<or> ep = DELETE_course"
    and "credentials req = None
      \<or> (\<exists>name pass. credentials req = Some (name, pass)
            \<and> find (\<lambda>u. emailAddress u = name) (users s) = None)
      \<or> (\<exists>name pass u. credentials req = Some (name, pass)
            \<and> find (\<lambda>u. emailAddress u = name) (users s) = Some u
            \<and> \<not> compareSync E pass (password u))"
  shows "app E s ep req =
           (\<lparr>status = 401, location = None,
             res_body = Some (JObj [(''message'', JStr ''Access Denied'')])\<rparr>, s)"
proof -
  from assms(2) obtain m where "auth_outcome E s req = Inl m"
    using auth_outcome_reasons by blast
  then have "authenticated E s req h = (access_denied, s)" for h
    by (rule authenticated_rejected)
  with assms(1) show ?thesis
    by (auto simp: access_denied_def res_json_def)
qed

text \<open>
  C1 at a concrete request: Ann's address with a wrong password on PUT /courses/1.
\<close>

theorem rejected_authentication_witness:
  "find (\<lambda>u. emailAddress u = ''ann@x.com'') (users sample_store) = Some ann
   \<and> \<not> compareSync sample_env ''guess'' (password ann)
   \<and> app sample_env sample_store PUT_course wrong_password =
           (\<lparr>status = 401, location = None,
             res_body = Some (JObj [(''message'', JStr ''Access Denied'')])\<rparr>, sample_store)"
  using rejected_authentication_is_401_access_denied
          [of PUT_course wrong_password sample_store sample_env]
  by (simp add: wrong_password_def sample_store_def sample_env_def ann_def bob_def)

text \<open>
  C10. On POST /courses and PUT /courses/:id authentication is decided before the
  validation result is looked at: a request that fails authentication and whose body fails
  the title/description rules is answered 401 \<^verbatim>\<open>{"message": "Access Denied"}\<close>, not 400;
  and a 400 is only ever sent to a caller who was authenticated.
\<close>

theorem authentication_before_validation:
  assumes "ep = POST_courses \<or> ep = PUT_course"
  shows "(auth_outcome E s req = Inl m
            \<and> validationResult E req
                 (if ep = POST_courses then post_courses_checks else put_course_checks) \<noteq> []
          \<longrightarrow> app E s ep req =
                (\<lparr>status = 401, location = None,
                  res_body = Some (JObj [(''message'', JStr ''Access Denied'')])\<rparr>, s))
       \<and> (status (fst (app E s ep req)) = 400 \<longrightarrow> (\<exists>u. auth_outcome E s req = Inr u))"
proof (cases "auth_outcome E s req")
  case (Inl m')
  then have "authenticated E s req h = (access_denied, s)" for h
    by (rule authenticated_rejected)
  with assms Inl show ?thesis
    by (auto simp: access_denied_def res_json_def)
next
  case (Inr u)
  then show ?thesis by simp
qed

section \<open>Validation\<close>

lemma instances_body_only:
  "headers req (map lower f) = None \<Longrightarrow> query req f = None \<Longrightarrow> instances req f = [body req f]"
  by (cases "body req f") (simp_all add: instances_def)

lemma body_instance: "body req f = Some v \<Longrightarrow> Some v \<in> set (instances req f)"
  by (simp add: instances_def)

lemma run_rule_Exists_body_only:
  "headers req (map lower f) = None \<Longrightarrow> query req f = None \<Longrightarrow>
     run_rule E req f (Exists, m) = (if run_validator E Exists (body req f) then [] else [m])"
  by (simp add: run_rule_def instances_body_only)

lemma run_rule_IsEmail_body_only:
  "headers req (map lower f) = None \<Longrightarrow> query req f = None \<Longrightarrow>
   \<not> validates_items E \<or> (\<forall>xs. body req f \<noteq> Some (JArr xs)) \<Longrightarrow>
     run_rule E req f (IsEmail, m) = (if run_validator E IsEmail (body req f) then [] else [m])"
proof -
  assume a: "headers req (map lower f) = None" "query req f = None"
    and b: "\<not> validates_items E \<or> (\<forall>xs. body req f \<noteq> Some (JArr xs))"
  from b have "validated_values E IsEmail (body req f) = [body req f]"
    by (cases "(E, IsEmail, body req f)" rule: validated_values.cases) auto
  with a show ?thesis
    by (simp add: run_rule_def instances_body_only del: run_validator.simps)
qed


lemma run_rule_passes:
  assumes "run_rule E req f rule = []" and "v \<in> set (instances req f)"
    and "x \<in> set (validated_values E (fst rule) v)"
  shows "run_validator E (fst rule) x"
proof -
  from assms(1) have "\<forall>v\<in>set (instances req f).
      filter (\<lambda>x. \<not> run_validator E (fst rule) x) (validated_values E (fst rule) v) = []"
    by (simp add: run_rule_def)
  with assms(2) have "filter (\<lambda>x. \<not> run_validator E (fst rule) x)
      (validated_values E (fst rule) v) = []"
    by blast
  with assms(3) show ?thesis
    by (auto simp: filter_empty_conv)
qed

lemma run_rule_Exists_passes:
  "run_rule E req f (Exists, m) = [] \<Longrightarrow> body req f = Some v \<Longrightarrow> truthy (Some v)"
  using run_rule_passes [of E req f "(Exists, m)" "Some v" "Some v"] body_instance [of req f v]
  by simp

lemma run_rule_IsEmail_passes:
  "run_rule E req f (IsEmail, m) = [] \<Longrightarrow> body req f = Some (JStr e) \<Longrightarrow> isEmail E e"
  using run_rule_passes [of E req f "(IsEmail, m)" "Some (JStr e)" "Some (JStr e)"]
    body_instance [of req f "JStr e"]
  by simp

lemma put_course_errors:
  assumes "body_only req [''title'', ''description'']"
  shows \<open>validationResult E req put_course_checks =
     (if run_validator E Exists (body req ''title'') then [] else [''Please provide "title"''])
   @ (if run_validator E Exists (body req ''description'') then []
      else [''Pleas provide "description"''])\<close>
  using assms
  by (simp add: validationResult_def run_chain_def put_course_checks_def body_only_def
      run_rule_Exists_body_only del: run_validator.simps)

lemma post_courses_errors:
  assumes "body_only req [''title'', ''description'']"
  shows \<open>validationResult E req post_courses_checks =
     (if run_validator E Exists (body req ''title'') then [] else [''Please provide "title"''])
   @ (if run_validator E Exists (body req ''description'') then []
      else [''Please provide "description"''])\<close>
  using assms
  by (simp add: validationResult_def run_chain_def post_courses_checks_def body_only_def
      run_rule_Exists_body_only del: run_validator.simps)

lemma post_users_errors:
  assumes "body_only req [''firstName'', ''lastName'', ''emailAddress'', ''password'']"
    and "\<not> validates_items E \<or> (\<forall>xs. body req ''emailAddress'' \<noteq> Some (JArr xs))"
  shows \<open>validationResult E req post_users_checks =
     (if run_validator E Exists (body req ''firstName'') then []
      else [''Please provide  "firstName"''])
   @ (if run_validator E Exists (body req ''lastName'') then [] else [''Please provide "lastName"''])
   @ (if run_validator E Exists (body req ''emailAddress'') then []
      else [''Please provide "emailAddress"''])
   @ (if run_validator E IsEmail (body req ''emailAddress'') then []
      else [''Please provide valid "email address" ''])
   @ (if run_validator E Exists (body req ''password'') then [] else [''Please provide "password"''])\<close>
  using assms
  by (simp add: validationResult_def run_chain_def post_users_checks_def body_only_def
      run_rule_Exists_body_only run_rule_IsEmail_body_only del: run_validator.simps)

lemma post_users_valid:
  assumes "validationResult E req post_users_checks = []"
  shows "(body req ''firstName'' = Some v \<longrightarrow> truthy (Some v))
       \<and> (body req ''lastName'' = Some v \<longrightarrow> truthy (Some v))
       \<and> (body req ''emailAddress'' = Some v \<longrightarrow> truthy (Some v))
       \<and> (body req ''emailAddress'' = Some (JStr e) \<longrightarrow> isEmail E e)
       \<and> (body req ''password'' = Some v \<longrightarrow> truthy (Some v))"
  using assms
  by (auto simp: validationResult_def run_chain_def post_users_checks_def
      dest: run_rule_Exists_passes run_rule_IsEmail_passes)

lemma post_courses_valid:
  assumes "validationResult E req post_courses_checks = []"
  shows "(body req ''title'' = Some v \<longrightarrow> truthy (Some v))
       \<and> (body req ''description'' = Some v \<longrightarrow> truthy (Some v))"
  using assms
  by (auto simp: validationResult_def run_chain_def post_courses_checks_def
      dest: run_rule_Exists_passes)

lemma sample_body_only [simp]:
  "body_only wrong_password fs" "body_only bob_on_anns_course fs"
  "body_only ann_on_missing_course fs" "body_only duplicate_ann fs"
  "body_only missing_email fs" "body_only no_owner_course fs" "body_only course_for_bob fs"
  "body_only empty_request fs" "body_only new_dee fs" "body_only new_eve fs"
  by (simp_all add: body_only_def list_all_iff wrong_password_def bob_on_anns_course_def
      ann_on_missing_course_def duplicate_ann_def missing_email_def no_owner_course_def
      course_for_bob_def empty_request_def new_dee_def new_eve_def)

text \<open>
  C10 at a concrete request: a wrong password and an empty body on POST /courses.
\<close>

theorem authentication_before_validation_witness:
  "auth_outcome sample_env sample_store wrong_password = Inl ''Authentication failure: ann@x.com''
   \<and> validationResult sample_env wrong_password post_courses_checks \<noteq> []
   \<and> app sample_env sample_store POST_courses wrong_password =
                (\<lparr>status = 401, location = None,
                  res_body = Some (JObj [(''message'', JStr ''Access Denied'')])\<rparr>, sample_store)
   \<and> status (fst (app sample_env sample_store POST_courses wrong_password)) \<noteq> 400"
  using authentication_before_validation [of POST_courses sample_env sample_store wrong_password
      "''Authentication failure: ann@x.com''"]
  by (simp add: post_courses_errors)
     (simp add: auth_outcome_def User_findAll_def wrong_password_def sample_store_def
        sample_env_def ann_def bob_def)

text \<open>
  C2. On PUT /courses/:id and DELETE /courses/:id, when the course exists and the
  authenticated caller's id differs from the course's stored userId (and, for PUT, the body
  passes validation), the response is 403 and the store is exactly what it was: no field of
  the course is changed and the row is not deleted.
\<close>

theorem non_owner_put_delete_forbidden:
  assumes "ep = PUT_course \<or> ep = DELETE_course"
    and "auth_outcome E s req = Inr u"
    and "Course_findByPk s (params_id req) = Some c"
    and "userId c \<noteq> user_id u"
    and "ep = PUT_course \<longrightarrow> validationResult E req put_course_checks = []"
  shows "app E s ep req =
           (\<lparr>status = 403, location = None, res_body = Some (JStr ''User has no course'')\<rparr>, s)"
  using assms
  by (auto simp: authenticated_accepted asyncHandler_def put_course_def delete_course_def
      res_json_def)

text \<open>
  C2 at a concrete request: Bob updating Ann's course.
\<close>

theorem non_owner_put_delete_witness:
  "auth_outcome sample_env sample_store bob_on_anns_course = Inr bob
   \<and> Course_findByPk sample_store (params_id bob_on_anns_course) = Some intro
   \<and> userId intro \<noteq> user_id bob
   \<and> validationResult sample_env bob_on_anns_course put_course_checks = []
   \<and> app sample_env sample_store PUT_course bob_on_anns_course =
           (\<lparr>status = 403, location = None, res_body = Some (JStr ''User has no course'')\<rparr>,
            sample_store)"
  using non_owner_put_delete_forbidden
          [of PUT_course sample_env sample_store bob_on_anns_course bob intro]
  by (simp add: sample_auth_bob put_course_errors)
     (simp add: Course_findByPk_def sample_store_def bob_on_anns_course_def intro_def bob_def)

text \<open>
  C7. On PUT /courses/:id (validation passed) and DELETE /courses/:id, with the caller
  authenticated and no stored course of the given id, the handler fails reading the owner
  of the absent course; the error reaches the global error handler and the response is the
  server error 500 with the error's message, not 404, 403 or 204. The store is unchanged.
\<close>

theorem missing_course_put_delete_is_500:
  assumes "ep = PUT_course \<or> ep = DELETE_course"
    and "auth_outcome E s req = Inr u"
    and "Course_findByPk s (params_id req) = None"
    and "ep = PUT_course \<longrightarrow> validationResult E req put_course_checks = []"
  shows "app E s ep req =
           (\<lparr>status = 500, location = None,
             res_body = Some (JObj [(''error'',
               JObj [(''message'', JStr (err_message null_userId))])])\<rparr>, s)"
  using assms
  by (auto simp: authenticated_accepted asyncHandler_def put_course_def delete_course_def
      res_json_def global_error_handler_def null_userId_def thrown_def)

text \<open>
  C7 at a concrete request: Ann deleting course 7, which does not exist.
\<close>

theorem missing_course_witness:
  "auth_outcome sample_env sample_store ann_on_missing_course = Inr ann
   \<and> Course_findByPk sample_store (params_id ann_on_missing_course) = None
   \<and> app sample_env sample_store DELETE_course ann_on_missing_course =
           (\<lparr>status = 500, location = None,
             res_body = Some (JObj [(''error'',
               JObj [(''message'', JStr (err_message null_userId))])])\<rparr>,
            sample_store)"
  using missing_course_put_delete_is_500
          [of DELETE_course sample_env sample_store ann_on_missing_course ann]
  by (simp add: sample_auth_ann_missing)
     (simp add: Course_findByPk_def sample_store_def ann_on_missing_course_def intro_def)

section \<open>Creating rows\<close>

lemma collect_length: "collect xs = Inr ys \<Longrightarrow> length ys = length xs"
  by (induction xs arbitrary: ys) (auto split: sum.splits)

lemma collect4:
  "collect [a, b, c, d] = Inr ys \<Longrightarrow>
     \<exists>a' b' c' d'. ys = [a', b', c', d'] \<and> a = Inr a' \<and> b = Inr b' \<and> c = Inr c' \<and> d = Inr d'"
  by (auto split: sum.splits)

lemma User_create_error:
  assumes "fst (User_create E s fn ln em pw) = Inl e"
  shows "(\<exists>m. e = thrown m) \<and> snd (User_create E s fn ln em pw) = s"
proof (cases "collect (map (column_text E) [fn, ln, em, pw])")
  case (Inl m)
  with assms show ?thesis
    by (auto simp: User_create_def Let_def split: if_splits)
next
  case (Inr ys)
  then obtain a b c d where ys: "ys = [a, b, c, d]"
    using collect4 [of "column_text E fn" "column_text E ln" "column_text E em"
        "column_text E pw" ys] by auto
  from assms show ?thesis
    unfolding User_create_def Let_def Inr ys
    by (cases a; cases b; cases c; cases d) (auto split: if_splits)
qed

lemma Course_create_error:
  assumes "fst (Course_create E s t d et mn uid) = Inl e"
  shows "(\<exists>m. e = thrown m) \<and> snd (Course_create E s t d et mn uid) = s"
proof (cases "collect (map (column_text E) [t, d, et, mn])")
  case (Inl m)
  with assms show ?thesis
    by (auto simp: Course_create_def Let_def split: if_splits)
next
  case (Inr ys)
  then obtain a b c d' where ys: "ys = [a, b, c, d']"
    using collect4 [of "column_text E t" "column_text E d" "column_text E et"
        "column_text E mn" ys] by auto
  from assms show ?thesis
    unfolding Course_create_def Let_def Inr ys
    by (cases a; cases b; cases "column_int E uid")
       (auto split: if_splits option.splits)
qed

lemma Course_update_error:
  assumes "Course_update E s t d et mn i = Inl e"
  shows "\<exists>m. e = thrown m"
proof (cases "collect (map (change E) [t, d, et, mn])")
  case (Inl m)
  with assms show ?thesis
    by (auto simp: Course_update_def Let_def split: if_splits)
next
  case (Inr ys)
  then obtain a b c d' where ys: "ys = [a, b, c, d']"
    using collect4 [of "change E t" "change E d" "change E et" "change E mn" ys] by auto
  from assms show ?thesis
    unfolding Course_update_def Let_def Inr ys
    by (auto split: if_splits)
qed


lemma post_users_outcome:
  assumes "validationResult E req post_users_checks = []"
  shows "(\<exists>m. post_users E s req = (Inl (thrown m), s))
       \<or> (\<exists>s'. post_users E s req = (Inr (res_end 201 (Some ''/'')), s'))"
proof (cases "\<exists>p. body req ''password'' = Some (JStr p)")
  case False
  with assms show ?thesis
    by (auto simp: post_users_def split: option.splits json.splits)
next
  case True
  then obtain p where p: "body req ''password'' = Some (JStr p)" by blast
  obtain r s' where c: "User_create E s (body req ''firstName'') (body req ''lastName'')
      (body req ''emailAddress'') (Some (JStr (hashSync E p))) = (r, s')"
    by (cases "User_create E s (body req ''firstName'') (body req ''lastName'')
      (body req ''emailAddress'') (Some (JStr (hashSync E p)))")
  show ?thesis
  proof (cases r)
    case (Inl e)
    with c User_create_error [of E s "body req ''firstName''" "body req ''lastName''"
        "body req ''emailAddress''" "Some (JStr (hashSync E p))" e]
    obtain m where "e = thrown m" "s' = s" by auto
    with assms p c Inl show ?thesis by (auto simp: post_users_def)
  next
    case (Inr u)
    with assms p c show ?thesis by (simp add: post_users_def)
  qed
qed





lemma schema_violations_string [simp]: "schema_violations model field a (Some (JStr x)) = []"
  by (simp add: schema_violations_def nullish_def)

lemma User_create_strings:
  "isEmail E e \<Longrightarrow>
   User_create E s (Some (JStr f)) (Some (JStr l)) (Some (JStr e)) (Some (JStr h)) =
     (if list_ex (\<lambda>u. emailAddress u = e) (users s)
      then (Inl (thrown ''Email address already in use!''), s)
      else (Inr \<lparr>user_id = user_seq s + 1, firstName = f, lastName = l, emailAddress = e,
                 password = h\<rparr>,
            s\<lparr>users := users s @ [\<lparr>user_id = user_seq s + 1, firstName = f, lastName = l,
                                     emailAddress = e, password = h\<rparr>],
              user_seq := user_seq s + 1\<rparr>))"
  by (simp add: User_create_def Let_def)

lemma User_create_duplicate:
  assumes "list_ex (\<lambda>u. emailAddress u = e) (users s)"
  shows "\<exists>m. User_create E s fn ln (Some (JStr e)) pw = (Inl (thrown m), s)"
proof (cases "collect (map (column_text E) [fn, ln, Some (JStr e), pw])")
  case (Inl m)
  then show ?thesis
    by (auto simp: User_create_def Let_def)
next
  case (Inr ys)
  then obtain a b d where ys: "ys = [a, b, Some e, d]"
    using collect4 [of "column_text E fn" "column_text E ln" "column_text E (Some (JStr e))"
        "column_text E pw" ys] by auto
  from assms show ?thesis
    unfolding User_create_def Let_def Inr ys
    by (cases a; cases b; cases d) auto
qed

text \<open>
  C4, as stated, fails: a complete POST /users with Ann's e-mail address is answered by the
  global error handler with status 500, not with a validation-style 400.
\<close>

theorem duplicate_email_counterexample:
  "list_ex (\<lambda>u. emailAddress u = ''ann@x.com'') (users sample_store)
   \<and> body duplicate_ann ''emailAddress'' = Some (JStr ''ann@x.com'')
   \<and> app sample_env sample_store POST_users duplicate_ann =
       (\<lparr>status = 500, location = None,
         res_body = Some (JObj [(''error'',
            JObj [(''message'', JStr ''Email address already in use!'')])])\<rparr>, sample_store)"
proof -
  have b: "body duplicate_ann ''firstName'' = Some (JStr ''Anna'')"
    "body duplicate_ann ''lastName'' = Some (JStr ''Li'')"
    "body duplicate_ann ''emailAddress'' = Some (JStr ''ann@x.com'')"
    "body duplicate_ann ''password'' = Some (JStr ''pw'')"
    by (simp_all add: duplicate_ann_def)
  have v: "validationResult sample_env duplicate_ann post_users_checks = []"
    by (simp add: post_users_errors b sample_env_def)
  have e: "isEmail sample_env ''ann@x.com''"
    by (simp add: sample_env_def)
  have l: "list_ex (\<lambda>u. emailAddress u = ''ann@x.com'') (users sample_store)"
    by (simp add: sample_store_def ann_def)
  show ?thesis
    by (simp add: l b v asyncHandler_def post_users_def User_create_strings [OF e]
        global_error_handler_def thrown_def res_json_def)
qed

text \<open>
  C4, amended. For every POST /users request whose body gives as emailAddress the address
  of a stored user, no row is created and the stored rows are unaffected (the store is
  unchanged). When a field rule fails, the response is the 400 list of messages and no
  creation is attempted. Otherwise the response is a 500 of the global error handler,
  \<^verbatim>\<open>{"error": {"message": ...}}\<close>; its message is the model's
  "Email address already in use!" when the body's firstName, lastName and password are
  strings.
\<close>

theorem duplicate_email_is_500_store_unchanged:
  assumes "body req ''emailAddress'' = Some (JStr e)"
    and "list_ex (\<lambda>u. emailAddress u = e) (users s)"
  shows "snd (app E s POST_users req) = s
       \<and> (validationResult E req post_users_checks \<noteq> [] \<longrightarrow>
            fst (app E s POST_users req) =
              \<lparr>status = 400, location = None,
                res_body = Some (JObj [(''errors'',
                  JArr (map JStr (validationResult E req post_users_checks)))])\<rparr>)
       \<and> (validationResult E req post_users_checks = [] \<longrightarrow>
            (\<exists>m. fst (app E s POST_users req) =
              \<lparr>status = 500, location = None,
                res_body = Some (JObj [(''error'', JObj [(''message'', JStr m)])])\<rparr>))
       \<and> (validationResult E req post_users_checks = []
            \<and> body req ''firstName'' = Some (JStr f) \<and> body req ''lastName'' = Some (JStr l)
            \<and> body req ''password'' = Some (JStr p) \<longrightarrow>
            fst (app E s POST_users req) =
              \<lparr>status = 500, location = None,
                res_body = Some (JObj [(''error'',
                  JObj [(''message'', JStr ''Email address already in use!'')])])\<rparr>)"
proof (cases "validationResult E req post_users_checks = []")
  case False
  then show ?thesis
    by (simp add: asyncHandler_def post_users_def validation_failed_def res_json_def)
next
  case True
  have g: "global_error_handler (thrown m) =
      \<lparr>status = 500, location = None,
        res_body = Some (JObj [(''error'', JObj [(''message'', JStr m)])])\<rparr>" for m
    by (simp add: global_error_handler_def thrown_def res_json_def)
  have t: "\<exists>m. post_users E s req = (Inl (thrown m), s)"
  proof (cases "\<exists>h. body req ''password'' = Some (JStr h)")
    case False
    with True show ?thesis
      by (auto simp: post_users_def split: option.splits json.splits)
  next
    case True
    then obtain h where h: "body req ''password'' = Some (JStr h)" by blast
    from User_create_duplicate [OF assms(2), of E "body req ''firstName''"
        "body req ''lastName''" "Some (JStr (hashSync E h))"]
    obtain m where "User_create E s (body req ''firstName'') (body req ''lastName'')
        (Some (JStr e)) (Some (JStr (hashSync E h))) = (Inl (thrown m), s)" by blast
    with \<open>validationResult E req post_users_checks = []\<close> h assms(1) show ?thesis
      by (auto simp: post_users_def)
  qed
  have u: "post_users E s req = (Inl (thrown ''Email address already in use!''), s)"
    if "body req ''firstName'' = Some (JStr f)" "body req ''lastName'' = Some (JStr l)"
      "body req ''password'' = Some (JStr p)"
  proof -
    from post_users_valid [OF True, of _ e] assms(1) have "isEmail E e" by simp
    with True that assms show ?thesis
      by (simp add: post_users_def User_create_strings)
  qed
  from t obtain m where m: "post_users E s req = (Inl (thrown m), s)" by blast
  show ?thesis
    using True m u by (auto simp: asyncHandler_def g)
qed

text \<open>
  C4 amended, at the complete request with Ann's e-mail address.
\<close>

theorem duplicate_email_witness:
  "body duplicate_ann ''emailAddress'' = Some (JStr ''ann@x.com'')
   \<and> list_ex (\<lambda>u. emailAddress u = ''ann@x.com'') (users sample_store)
   \<and> validationResult sample_env duplicate_ann post_users_checks = []
   \<and> snd (app sample_env sample_store POST_users duplicate_ann) = sample_store
   \<and> fst (app sample_env sample_store POST_users duplicate_ann) =
              \<lparr>status = 500, location = None,
                res_body = Some (JObj [(''error'',
                  JObj [(''message'', JStr ''Email address already in use!'')])])\<rparr>"
proof -
  have b: "body duplicate_ann ''firstName'' = Some (JStr ''Anna'')"
    "body duplicate_ann ''lastName'' = Some (JStr ''Li'')"
    "body duplicate_ann ''emailAddress'' = Some (JStr ''ann@x.com'')"
    "body duplicate_ann ''password'' = Some (JStr ''pw'')"
    by (simp_all add: duplicate_ann_def)
  have v: "validationResult sample_env duplicate_ann post_users_checks = []"
    by (simp add: post_users_errors b sample_env_def)
  have l: "list_ex (\<lambda>u. emailAddress u = ''ann@x.com'') (users sample_store)"
    by (simp add: sample_store_def ann_def)
  note t = duplicate_email_is_500_store_unchanged [OF b(3) l, of sample_env "''Anna''" "''Li''" "''pw''"]
  from t v b l show ?thesis by simp
qed

lemma plain_column:
  "plain v \<Longrightarrow> column_text E v = Inr (plain_text v) \<and> schema_violations m f True v = []"
  by (cases "v" rule: plain.cases) (simp_all add: schema_violations_def)

lemma find_last:
  "\<not> list_ex P xs \<Longrightarrow> P x \<Longrightarrow> find P (xs @ [x]) = Some x"
  by (induction xs) auto

text \<open>
  C3, amended. For every user created via POST /users (the four fields strings in the body,
  validation passed, the e-mail address not yet stored), the stored password is the result
  of \<^verbatim>\<open>bcryptjs.hashSync\<close> on the submitted plaintext (it differs from the plaintext
  whenever the hash of a string is not that string), and a later request presenting the new
  user's e-mail address and a secret is authenticated as that user exactly when
  \<^verbatim>\<open>bcryptjs.compareSync\<close> accepts the secret against that hash: for the original
  plaintext and for any other string alike.
\<close>

theorem stored_hash_and_verifier:
  assumes "body req ''firstName'' = Some (JStr f)" and "body req ''lastName'' = Some (JStr l)"
    and "body req ''emailAddress'' = Some (JStr e)" and "body req ''password'' = Some (JStr p)"
    and "validationResult E req post_users_checks = []"
    and "\<not> list_ex (\<lambda>u. emailAddress u = e) (users s)"
  shows "app E s POST_users req =
           (\<lparr>status = 201, location = Some ''/'', res_body = None\<rparr>,
            s\<lparr>users := users s @
                 [\<lparr>user_id = user_seq s + 1, firstName = f, lastName = l, emailAddress = e,
                   password = hashSync E p\<rparr>],
              user_seq := user_seq s + 1\<rparr>)
       \<and> (\<forall>login q. credentials login = Some (e, q) \<longrightarrow>
            (auth_outcome E (snd (app E s POST_users req)) login =
               Inr \<lparr>user_id = user_seq s + 1, firstName = f, lastName = l, emailAddress = e,
                    password = hashSync E p\<rparr>
             \<longleftrightarrow> compareSync E q (hashSync E p)))"
proof -
  from post_users_valid [OF assms(5), of _ e] assms(3) have "isEmail E e" by simp
  with assms have a: "app E s POST_users req =
           (\<lparr>status = 201, location = Some ''/'', res_body = None\<rparr>,
            s\<lparr>users := users s @
                 [\<lparr>user_id = user_seq s + 1, firstName = f, lastName = l, emailAddress = e,
                   password = hashSync E p\<rparr>],
              user_seq := user_seq s + 1\<rparr>)"
    by (simp add: asyncHandler_def post_users_def User_create_strings res_end_def)
  have "find (\<lambda>u. emailAddress u = e)
      (users s @ [\<lparr>user_id = user_seq s + 1, firstName = f, lastName = l, emailAddress = e,
                   password = hashSync E p\<rparr>]) =
      Some \<lparr>user_id = user_seq s + 1, firstName = f, lastName = l, emailAddress = e,
                   password = hashSync E p\<rparr>"
    using assms(6) by (simp add: find_last)
  then show ?thesis
    unfolding a by (simp add: auth_outcome_def User_findAll_def)
qed

text \<open>
  C3, as stated, fails for a hash that, like bcrypt's, reads only the first 72 bytes of the
  password: Dee is created with a password of 73 characters, and a login with a different
  password that shares the first 72 is authenticated as Dee.
\<close>

theorem verifier_accepts_other_password_counterexample:
  "other_password \<noteq> long_password
   \<and> app bcrypt72_env empty_store POST_users new_dee =
       (\<lparr>status = 201, location = Some ''/'', res_body = None\<rparr>,
        \<lparr>users = [dee], courses = [], user_seq = 1, course_seq = 0\<rparr>)
   \<and> auth_outcome bcrypt72_env \<lparr>users = [dee], courses = [], user_seq = 1, course_seq = 0\<rparr>
        dee_other_password = Inr dee"
proof -
  have b: "body new_dee ''firstName'' = Some (JStr ''Dee'')"
    "body new_dee ''lastName'' = Some (JStr ''Fox'')"
    "body new_dee ''emailAddress'' = Some (JStr ''dee@x.com'')"
    "body new_dee ''password'' = Some (JStr long_password)"
    by (simp_all add: new_dee_def)
  have n: "long_password \<noteq> []"
    by (simp add: long_password_def)
  have v: "validationResult bcrypt72_env new_dee post_users_checks = []"
    by (simp add: post_users_errors b n bcrypt72_env_def sample_env_def)
  have e: "isEmail bcrypt72_env ''dee@x.com''"
    by (simp add: bcrypt72_env_def sample_env_def)
  have h: "hashSync bcrypt72_env long_password = ''$2a$10$'' @ replicate 72 (CHR ''a'')"
    by (simp add: bcrypt72_env_def sample_env_def long_password_def)
  have c: "compareSync bcrypt72_env other_password (''$2a$10$'' @ replicate 72 (CHR ''a''))"
    by (simp add: bcrypt72_env_def sample_env_def other_password_def)
  have d: "other_password \<noteq> long_password"
    by (simp add: other_password_def long_password_def)
  have a: "app bcrypt72_env empty_store POST_users new_dee =
       (\<lparr>status = 201, location = Some ''/'', res_body = None\<rparr>,
        \<lparr>users = [dee], courses = [], user_seq = 1, course_seq = 0\<rparr>)"
    by (simp add: asyncHandler_def post_users_def v b User_create_strings [OF e] h res_end_def
        empty_store_def dee_def)
  have o: "auth_outcome bcrypt72_env \<lparr>users = [dee], courses = [], user_seq = 1, course_seq = 0\<rparr>
        dee_other_password = Inr dee"
    using c by (simp add: auth_outcome_def User_findAll_def dee_other_password_def dee_def)
  from d a o show ?thesis by simp
qed

text \<open>
  C3 amended, at a concrete request: Eve is created and logs in with her password, and
  not with another one.
\<close>

theorem stored_hash_and_verifier_witness:
  "validationResult sample_env new_eve post_users_checks = []
   \<and> \<not> list_ex (\<lambda>u. emailAddress u = ''eve@x.com'') (users sample_store)
   \<and> app sample_env sample_store POST_users new_eve =
           (\<lparr>status = 201, location = Some ''/'', res_body = None\<rparr>,
            sample_store\<lparr>users := [ann, bob,
                 \<lparr>user_id = 3, firstName = ''Eve'', lastName = ''Kim'',
                   emailAddress = ''eve@x.com'', password = ''$2a$10$secret3''\<rparr>],
              user_seq := 3\<rparr>)
   \<and> auth_outcome sample_env (snd (app sample_env sample_store POST_users new_eve))
         (eve_login ''secret3'') =
       Inr \<lparr>user_id = 3, firstName = ''Eve'', lastName = ''Kim'',
            emailAddress = ''eve@x.com'', password = ''$2a$10$secret3''\<rparr>
   \<and> auth_outcome sample_env (snd (app sample_env sample_store POST_users new_eve))
         (eve_login ''secret4'') \<noteq>
       Inr \<lparr>user_id = 3, firstName = ''Eve'', lastName = ''Kim'',
            emailAddress = ''eve@x.com'', password = ''$2a$10$secret3''\<rparr>"
proof -
  have b: "body new_eve ''firstName'' = Some (JStr ''Eve'')"
    "body new_eve ''lastName'' = Some (JStr ''Kim'')"
    "body new_eve ''emailAddress'' = Some (JStr ''eve@x.com'')"
    "body new_eve ''password'' = Some (JStr ''secret3'')"
    by (simp_all add: new_eve_def)
  have v: "validationResult sample_env new_eve post_users_checks = []"
    by (simp add: post_users_errors b sample_env_def)
  have l: "\<not> list_ex (\<lambda>u. emailAddress u = ''eve@x.com'') (users sample_store)"
    by (simp add: sample_store_def ann_def bob_def)
  note t = stored_hash_and_verifier [OF b v l]
  have h: "hashSync sample_env ''secret3'' = ''$2a$10$secret3''"
    by (simp add: sample_env_def)
  have c: "credentials (eve_login q) = Some (''eve@x.com'', q)" for q
    by (simp add: eve_login_def)
  have c3: "compareSync sample_env ''secret3'' ''$2a$10$secret3''"
    and c4: "\<not> compareSync sample_env ''secret4'' ''$2a$10$secret3''"
    by (simp_all add: sample_env_def)
  from t [THEN conjunct1] have a: "app sample_env sample_store POST_users new_eve =
           (\<lparr>status = 201, location = Some ''/'', res_body = None\<rparr>,
            sample_store\<lparr>users := [ann, bob,
                 \<lparr>user_id = 3, firstName = ''Eve'', lastName = ''Kim'',
                   emailAddress = ''eve@x.com'', password = ''$2a$10$secret3''\<rparr>],
              user_seq := 3\<rparr>)"
    by (simp add: h sample_store_def)
  from t [THEN conjunct2, rule_format, OF c, of "''secret3''"] c3
  have o3: "auth_outcome sample_env (snd (app sample_env sample_store POST_users new_eve))
         (eve_login ''secret3'') =
       Inr \<lparr>user_id = 3, firstName = ''Eve'', lastName = ''Kim'',
            emailAddress = ''eve@x.com'', password = ''$2a$10$secret3''\<rparr>"
    by (simp add: h sample_store_def)
  from t [THEN conjunct2, rule_format, OF c, of "''secret4''"] c4
  have o4: "auth_outcome sample_env (snd (app sample_env sample_store POST_users new_eve))
         (eve_login ''secret4'') \<noteq>
       Inr \<lparr>user_id = 3, firstName = ''Eve'', lastName = ''Kim'',
            emailAddress = ''eve@x.com'', password = ''$2a$10$secret3''\<rparr>"
    by (simp add: h sample_store_def)
  from v l a o3 o4 show ?thesis by blast
qed

text \<open>
  C8, as stated, fails: Ann, authenticated, posts a course with title and description but
  no \<^verbatim>\<open>userId\<close>. The model's \<^verbatim>\<open>allowNull: false\<close> rejects the creation, the response is
  500 and no course is stored.
\<close>

theorem post_courses_without_owner_counterexample:
  "auth_outcome sample_env sample_store no_owner_course = Inr ann
   \<and> validationResult sample_env no_owner_course post_courses_checks = []
   \<and> app sample_env sample_store POST_courses no_owner_course =
       (\<lparr>status = 500, location = None,
         res_body = Some (JObj [(''error'',
            JObj [(''message'', JStr ''notNull Violation: Course.userId cannot be null'')])])\<rparr>,
        sample_store)"
proof -
  have b: "body no_owner_course ''title'' = Some (JStr ''Intro'')"
    "body no_owner_course ''description'' = Some (JStr ''desc'')"
    "body no_owner_course ''estimatedTime'' = None"
    "body no_owner_course ''materialsNeeded'' = None"
    "body no_owner_course ''userId'' = None"
    by (simp_all add: no_owner_course_def)
  have v: "validationResult sample_env no_owner_course post_courses_checks = []"
    by (simp add: post_courses_errors b)
  have "app sample_env sample_store POST_courses no_owner_course =
       (\<lparr>status = 500, location = None,
         res_body = Some (JObj [(''error'',
            JObj [(''message'', JStr ''notNull Violation: Course.userId cannot be null'')])])\<rparr>,
        sample_store)"
    by (simp add: authenticated_accepted [OF sample_auth_ann_no_owner] asyncHandler_def
        post_courses_def v b Course_create_def notNull_def schema_violations_def nullish_def
        global_error_handler_def thrown_def res_json_def)
  with v show ?thesis by (simp add: sample_auth_ann_no_owner)
qed

text \<open>
  C8, amended. For every POST /courses request that passes authentication and the
  validation of title and description, whose body gives title and description as strings,
  estimatedTime and materialsNeeded as strings, \<^verbatim>\<open>null\<close> or not at all, and userId as an
  integer (naming a stored user, where the storage engine enforces the foreign key), a
  course is created whose owner reference is the body's userId, whoever the authenticated
  caller is, and the response is 201 with no body and the Location header
  /courses/{newId}, newId being the identifier of the created course.
\<close>

theorem post_courses_creates_with_payload_owner:
  assumes "auth_outcome E s req = Inr u"
    and "validationResult E req post_courses_checks = []"
    and "body req ''title'' = Some (JStr t)" and "body req ''description'' = Some (JStr d)"
    and "plain (body req ''estimatedTime'')" and "plain (body req ''materialsNeeded'')"
    and "body req ''userId'' = Some (JNum owner)"
    and "foreignKeys E \<longrightarrow> list_ex (\<lambda>v. user_id v = owner) (users s)"
  shows "app E s POST_courses req =
               (\<lparr>status = 201,
                 location = Some (''/courses/'' @ string_of_int (course_seq s + 1)),
                 res_body = None\<rparr>,
                s\<lparr>courses := courses s @
                     [\<lparr>course_id = course_seq s + 1, title = t, description = d,
                       estimatedTime = plain_text (body req ''estimatedTime''),
                       materialsNeeded = plain_text (body req ''materialsNeeded''),
                       userId = owner\<rparr>],
                  course_seq := course_seq s + 1\<rparr>)"
  using assms plain_column [OF assms(5), of E "''Course''" "''estimatedTime''"]
    plain_column [OF assms(6), of E "''Course''" "''materialsNeeded''"]
  by (auto simp: authenticated_accepted asyncHandler_def post_courses_def Course_create_def
      notNull_def nullish_def res_end_def Let_def)

text \<open>
  C8 amended, at a concrete request: Ann creates a course whose userId is Bob's.
\<close>

theorem post_courses_witness:
  "auth_outcome sample_env sample_store course_for_bob = Inr ann
   \<and> validationResult sample_env course_for_bob post_courses_checks = []
   \<and> body course_for_bob ''userId'' = Some (JNum 2)
   \<and> list_ex (\<lambda>v. user_id v = 2) (users sample_store)
   \<and> app sample_env sample_store POST_courses course_for_bob =
               (\<lparr>status = 201, location = Some ''/courses/2'', res_body = None\<rparr>,
                sample_store\<lparr>courses := [intro,
                     \<lparr>course_id = 2, title = ''Intro'', description = ''desc'',
                       estimatedTime = None, materialsNeeded = None, userId = 2\<rparr>],
                  course_seq := 2\<rparr>)"
proof -
  have b: "body course_for_bob ''title'' = Some (JStr ''Intro'')"
    "body course_for_bob ''description'' = Some (JStr ''desc'')"
    "body course_for_bob ''estimatedTime'' = None"
    "body course_for_bob ''materialsNeeded'' = None"
    "body course_for_bob ''userId'' = Some (JNum 2)"
    by (simp_all add: course_for_bob_def)
  have v: "validationResult sample_env course_for_bob post_courses_checks = []"
    by (simp add: post_courses_errors b)
  have p: "plain (body course_for_bob ''estimatedTime'')"
    "plain (body course_for_bob ''materialsNeeded'')"
    by (simp_all add: b)
  have l: "list_ex (\<lambda>v. user_id v = 2) (users sample_store)"
    by (simp add: sample_store_def bob_def)
  have d: "string_of_int 2 = ''2''"
    by (simp add: string_of_int_def dec.simps)
  from post_courses_creates_with_payload_owner
         [OF sample_auth_ann_for_bob v b(1) b(2) p b(5) impI [OF l]]
  have "app sample_env sample_store POST_courses course_for_bob =
               (\<lparr>status = 201, location = Some ''/courses/2'', res_body = None\<rparr>,
                sample_store\<lparr>courses := [intro,
                     \<lparr>course_id = 2, title = ''Intro'', description = ''desc'',
                       estimatedTime = None, materialsNeeded = None, userId = 2\<rparr>],
                  course_seq := 2\<rparr>)"
    by (simp add: b sample_store_def d)
  with v b(5) l show ?thesis by (simp add: sample_auth_ann_for_bob)
qed

section \<open>Outcomes of the handlers\<close>

lemma post_users_cases:
  obtains (invalid) "validationResult E req post_users_checks \<noteq> []"
      "post_users E s req = (Inr (validation_failed (validationResult E req post_users_checks)), s)"
    | (failed) m where "post_users E s req = (Inl (thrown m), s)"
    | (created) s' where "post_users E s req = (Inr (res_end 201 (Some ''/'')), s')"
proof (cases "validationResult E req post_users_checks = []")
  case True
  from post_users_outcome [OF this, of s] failed created show ?thesis by blast
next
  case False
  then have "post_users E s req =
      (Inr (validation_failed (validationResult E req post_users_checks)), s)"
    by (simp add: post_users_def)
  with False invalid show ?thesis by blast
qed

lemma post_courses_cases:
  obtains (invalid) "validationResult E req post_courses_checks \<noteq> []"
      "post_courses E s req =
         (Inr (validation_failed (validationResult E req post_courses_checks)), s)"
    | (failed) m where "post_courses E s req = (Inl (thrown m), s)"
    | (created) l s' where "post_courses E s req = (Inr (res_end 201 l), s')"
proof (cases "validationResult E req post_courses_checks = []")
  case False
  then have "post_courses E s req =
      (Inr (validation_failed (validationResult E req post_courses_checks)), s)"
    by (simp add: post_courses_def)
  with False invalid show ?thesis by blast
next
  case True
  obtain r s' where c: "Course_create E s (body req ''title'') (body req ''description'')
      (body req ''estimatedTime'') (body req ''materialsNeeded'') (body req ''userId'') = (r, s')"
    by (cases "Course_create E s (body req ''title'') (body req ''description'')
      (body req ''estimatedTime'') (body req ''materialsNeeded'') (body req ''userId'')")
  show ?thesis
  proof (cases r)
    case (Inl e)
    with c Course_create_error [of E s "body req ''title''" "body req ''description''"
        "body req ''estimatedTime''" "body req ''materialsNeeded''" "body req ''userId''" e]
    obtain m where "e = thrown m" "s' = s" by auto
    with True c Inl have "post_courses E s req = (Inl (thrown m), s)"
      by (simp add: post_courses_def)
    with failed show ?thesis by blast
  next
    case (Inr x)
    with True c have "post_courses E s req =
        (Inr (res_end 201 (Some (''/courses/'' @ string_of_int (course_id x)))), s')"
      by (simp add: post_courses_def)
    with created show ?thesis by blast
  qed
qed

lemma put_course_cases:
  obtains (invalid) "validationResult E req put_course_checks \<noteq> []"
      "put_course E u s req =
         (Inr (validation_failed (validationResult E req put_course_checks)), s)"
    | (failed) m where "put_course E u s req = (Inl (thrown m), s)"
    | (updated) s' where "put_course E u s req = (Inr (res_end 204 None), s')"
    | (forbidden) "put_course E u s req = (Inr (res_json 403 (JStr ''User has no course'')), s)"
proof (cases "validationResult E req put_course_checks = []")
  case False
  then have "put_course E u s req =
      (Inr (validation_failed (validationResult E req put_course_checks)), s)"
    by (simp add: put_course_def)
  with False invalid show ?thesis by blast
next
  case True
  show ?thesis
  proof (cases "Course_findByPk s (params_id req)")
    case None
    with True have "put_course E u s req = (Inl (thrown (err_message null_userId)), s)"
      by (simp add: put_course_def null_userId_def thrown_def)
    with failed show ?thesis by blast
  next
    case (Some c)
    show ?thesis
    proof (cases "userId c = user_id u")
      case False
      with True Some have "put_course E u s req =
          (Inr (res_json 403 (JStr ''User has no course'')), s)"
        by (simp add: put_course_def)
      with forbidden show ?thesis by blast
    next
      case owner: True
      show ?thesis
      proof (cases "Course_update E s (body req ''title'') (body req ''description'')
          (body req ''estimatedTime'') (body req ''materialsNeeded'') (params_id req)")
        case (Inl e)
        with Course_update_error obtain m where "e = thrown m" by blast
        with True Some owner Inl have "put_course E u s req = (Inl (thrown m), s)"
          by (simp add: put_course_def)
        with failed show ?thesis by blast
      next
        case (Inr s')
        with True Some owner have "put_course E u s req = (Inr (res_end 204 None), s')"
          by (simp add: put_course_def)
        with updated show ?thesis by blast
      qed
    qed
  qed
qed

lemma delete_course_cases:
  obtains (failed) m where "delete_course u s req = (Inl (thrown m), s)"
    | (deleted) s' where "delete_course u s req = (Inr (res_end 204 None), s')"
    | (forbidden) "delete_course u s req = (Inr (res_json 403 (JStr ''User has no course'')), s)"
proof (cases "Course_findByPk s (params_id req)")
  case None
  then have "delete_course u s req = (Inl (thrown (err_message null_userId)), s)"
    by (simp add: delete_course_def null_userId_def thrown_def)
  with failed show ?thesis by blast
next
  case (Some c)
  show ?thesis
  proof (cases "userId c = user_id u")
    case True
    with Some have "delete_course u s req =
        (Inr (res_end 204 None), Course_destroy s (params_id req))"
      by (simp add: delete_course_def)
    with deleted show ?thesis by blast
  next
    case False
    with Some have "delete_course u s req =
        (Inr (res_json 403 (JStr ''User has no course'')), s)"
      by (simp add: delete_course_def)
    with forbidden show ?thesis by blast
  qed
qed

section \<open>Response bodies\<close>

lemma has_field_course_json: "\<not> has_field ''password'' (course_json s c)"
  by (simp add: course_json_def nullable_def owner_json_def split: option.splits)

lemma password_global_error_handler: "\<not> body_has_field ''password'' (global_error_handler e)"
  by (simp add: body_has_field_def global_error_handler_def res_json_def)

lemma password_validation_failed: "\<not> body_has_field ''password'' (validation_failed ms)"
  by (simp add: body_has_field_def validation_failed_def res_json_def list_ex_iff)

lemma password_res_end: "\<not> body_has_field ''password'' (res_end n l)"
  by (simp add: body_has_field_def res_end_def)

lemma password_res_json_string: "\<not> body_has_field ''password'' (res_json n (JStr x))"
  by (simp add: body_has_field_def res_json_def)

lemma password_access_denied: "\<not> body_has_field ''password'' access_denied"
  by (simp add: body_has_field_def access_denied_def res_json_def)

lemmas password_free = password_global_error_handler password_validation_failed
  password_res_end password_res_json_string password_access_denied

lemma password_authenticated:
  "(\<And>u. \<not> body_has_field ''password'' (fst (asyncHandler (h u)))) \<Longrightarrow>
     \<not> body_has_field ''password'' (fst (authenticated E s req h))"
  by (simp add: authenticated_def authenticateUser_def password_access_denied split: sum.splits)

lemma password_post_users:
  "\<not> body_has_field ''password'' (fst (asyncHandler (post_users E s req)))"
  by (rule post_users_cases [where E = E and req = req and s = s])
     (simp_all add: asyncHandler_def password_free)

lemma password_post_courses:
  "\<not> body_has_field ''password'' (fst (asyncHandler (post_courses E s req)))"
  by (rule post_courses_cases [where E = E and req = req and s = s])
     (simp_all add: asyncHandler_def password_free)

lemma password_put_course:
  "\<not> body_has_field ''password'' (fst (asyncHandler (put_course E u s req)))"
  by (rule put_course_cases [where E = E and req = req and u = u and s = s])
     (simp_all add: asyncHandler_def password_free)

lemma password_delete_course:
  "\<not> body_has_field ''password'' (fst (asyncHandler (delete_course u s req)))"
  by (rule delete_course_cases [where req = req and u = u and s = s])
     (simp_all add: asyncHandler_def password_free)

lemma password_get_users:
  "\<not> body_has_field ''password'' (fst (asyncHandler (get_users u s)))"
  by (simp add: asyncHandler_def get_users_def body_has_field_def res_json_def)

lemma password_get_courses:
  "\<not> body_has_field ''password'' (fst (asyncHandler (get_courses s)))"
  by (simp add: asyncHandler_def get_courses_def body_has_field_def res_json_def list_ex_iff
      has_field_course_json)

lemma password_get_course:
  "\<not> body_has_field ''password'' (fst (asyncHandler (get_course s req)))"
  by (simp add: asyncHandler_def get_course_def body_has_field_def res_json_def
      has_field_course_json split: option.splits)

lemma password_app: "\<not> body_has_field ''password'' (fst (app E s ep req))"
proof (cases ep)
  case GET_root
  then show ?thesis by (simp add: body_has_field_def res_json_def)
next
  case GET_users
  then show ?thesis by (simp add: password_authenticated password_get_users)
next
  case POST_users
  then show ?thesis by (simp add: password_post_users)
next
  case GET_courses
  then show ?thesis by (simp add: password_get_courses)
next
  case GET_course
  then show ?thesis by (simp add: password_get_course)
next
  case POST_courses
  then show ?thesis by (simp add: password_authenticated password_post_courses)
next
  case PUT_course
  then show ?thesis by (simp add: password_authenticated password_put_course)
next
  case DELETE_course
  then show ?thesis by (simp add: password_authenticated password_delete_course)
next
  case Unmatched
  then show ?thesis by (simp add: password_global_error_handler)
qed

text \<open>
  C6. No response body of any operation contains a field named \<^verbatim>\<open>password\<close>, at any
  depth: this covers the course lists and single courses with their owner objects, the error
  bodies and the validation lists, also when the body of the request did not parse.
  GET /users, for an authenticated caller, returns exactly the id, firstName, lastName and
  emailAddress of that user.
\<close>

theorem no_password_in_any_response:
  "\<not> body_has_field ''password'' (fst (app E s ep req))
   \<and> (auth_outcome E s req = Inr u \<longrightarrow>
        app E s GET_users req =
          (\<lparr>status = 200, location = None,
            res_body = Some (JObj [(''id'', JNum (user_id u)), (''firstName'', JStr (firstName u)),
               (''lastName'', JStr (lastName u)), (''emailAddress'', JStr (emailAddress u))])\<rparr>, s))
   \<and> \<not> body_has_field ''password'' (fst (server E s ep inc))"
proof (intro conjI)
  show "\<not> body_has_field ''password'' (fst (app E s ep req))"
    by (rule password_app)
  show "auth_outcome E s req = Inr u \<longrightarrow>
        app E s GET_users req =
          (\<lparr>status = 200, location = None,
            res_body = Some (JObj [(''id'', JNum (user_id u)), (''firstName'', JStr (firstName u)),
               (''lastName'', JStr (lastName u)), (''emailAddress'', JStr (emailAddress u))])\<rparr>, s)"
    by (simp add: authenticated_accepted asyncHandler_def get_users_def res_json_def)
  show "\<not> body_has_field ''password'' (fst (server E s ep inc))"
    by (cases inc) (simp_all add: server_def password_app password_global_error_handler)
qed

text \<open>
  C6 at concrete requests: Ann reading her own record, and the list of courses.
\<close>

theorem no_password_witness:
  "auth_outcome sample_env sample_store ann_on_missing_course = Inr ann
   \<and> app sample_env sample_store GET_users ann_on_missing_course =
          (\<lparr>status = 200, location = None,
            res_body = Some (JObj [(''id'', JNum 1), (''firstName'', JStr ''Ann''),
               (''lastName'', JStr ''Lee''), (''emailAddress'', JStr ''ann@x.com'')])\<rparr>,
           sample_store)
   \<and> fst (app sample_env sample_store GET_courses ann_on_missing_course) =
          \<lparr>status = 200, location = None,
            res_body = Some (JArr [JObj [(''id'', JNum 1), (''title'', JStr ''Intro''),
              (''description'', JStr ''desc''), (''estimatedTime'', JNull),
              (''materialsNeeded'', JNull), (''userId'', JNum 1),
              (''owner'', JObj [(''id'', JNum 1), (''firstName'', JStr ''Ann''),
                 (''lastName'', JStr ''Lee''), (''emailAddress'', JStr ''ann@x.com'')])]])\<rparr>
   \<and> \<not> body_has_field ''password''
         (fst (app sample_env sample_store GET_courses ann_on_missing_course))"
proof -
  have g: "fst (app sample_env sample_store GET_courses ann_on_missing_course) =
          \<lparr>status = 200, location = None,
            res_body = Some (JArr [JObj [(''id'', JNum 1), (''title'', JStr ''Intro''),
              (''description'', JStr ''desc''), (''estimatedTime'', JNull),
              (''materialsNeeded'', JNull), (''userId'', JNum 1),
              (''owner'', JObj [(''id'', JNum 1), (''firstName'', JStr ''Ann''),
                 (''lastName'', JStr ''Lee''), (''emailAddress'', JStr ''ann@x.com'')])]])\<rparr>"
    by (simp add: asyncHandler_def get_courses_def course_json_def owner_json_def nullable_def
        res_json_def sample_store_def intro_def ann_def)
  note t = no_password_in_any_response
      [of sample_env sample_store GET_courses ann_on_missing_course ann]
  have a: "app sample_env sample_store GET_users ann_on_missing_course =
          (\<lparr>status = 200, location = None,
            res_body = Some (JObj [(''id'', JNum 1), (''firstName'', JStr ''Ann''),
               (''lastName'', JStr ''Lee''), (''emailAddress'', JStr ''ann@x.com'')])\<rparr>,
           sample_store)"
    using t [THEN conjunct2, THEN conjunct1, rule_format, OF sample_auth_ann_missing]
    by (simp add: ann_def)
  from t [THEN conjunct1] a g show ?thesis
    by (simp only: sample_auth_ann_missing simp_thms)
qed

section \<open>Failure responses\<close>




















end
